theory Spec2Isabelle
  imports Main
begin

section \<open>Data model of \<open>src/network/rtsp_client.c\<close>\<close>

text \<open>
  Heap objects (sockets, buffers, the client records) are named by their address.
  \<open>NULL\<close> is address 0.
\<close>

type_synonym ptr = nat

abbreviation NULL :: ptr where
  "NULL \<equiv> 0"

text \<open>\<open>session->track->properties.media_source\<close>; only \<open>MS_live\<close> is tested by this file.\<close>

datatype media_source = MS_stored | MS_live

text \<open>The two RTCP packet kinds this file asks \<open>rtcp_send_sr\<close> to send.\<close>

datatype rtcp_pkt_type = SDES | BYE

text \<open>
  The fields of \<open>RTP_session\<close> that \<open>check_if_any_rtp_session_timedout\<close> reads.
  \<open>time_t\<close> values and the integer flags are unbounded integers: the function only
  subtracts two clock readings and compares with small constants.
\<close>

record RTP_session =
  media_source :: media_source
  last_packet_send_time :: int
  last_rtcp_read_time :: int
  isBye :: int
  client :: ptr

text \<open>\<open>rtsp->session\<close>: the RTSP session and its list of RTP sessions (a \<open>GSList\<close>).\<close>

record RTSP_session =
  session_addr :: ptr
  rtp_sessions :: "RTP_session list"

text \<open>
  libev watchers: \<open>active\<close> is what \<open>ev_is_active\<close> reports; an async watcher also has
  the \<open>sent\<close> flag that \<open>ev_async_send\<close> raises; a timer has its \<open>repeat\<close> interval.
\<close>

record ev_io =
  io_active :: bool

record ev_async =
  async_active :: bool
  sent :: bool

record ev_timer =
  timer_active :: bool
  repeat :: int

datatype io_watcher = Ev_io_read | Ev_io_write

text \<open>
  \<open>RTSP_Client\<close>. The \<open>GQueue\<close> \<open>out_queue\<close> is the list of the queued \<open>GString\<close>
  addresses, head first; \<open>session\<close> is \<open>None\<close> for a NULL pointer.
\<close>

record RTSP_Client =
  sock :: ptr
  input :: ptr
  out_queue :: "ptr list"
  session :: "RTSP_session option"
  ev_io_read :: ev_io
  ev_io_write :: ev_io
  ev_sig_disconnect :: ev_async
  ev_timeout :: ev_timer

text \<open>
  \<open>client_port_pair\<close> (TRISOS build): the record the parent keeps for a forked child,
  the child's process id and the reserved port pair.
\<close>

record client_port_pair =
  pid :: int
  port_pair :: ptr

text \<open>
  Every call into a collaborator (libev, GLib, the socket layer, the log, the rest of
  feng) and the counter updates are recorded in a trace, in program order.
\<close>

datatype event =
    Ev_io_start ptr io_watcher
  | Ev_io_stop ptr io_watcher
  | Ev_async_start ptr
  | Ev_async_stop ptr
  | Ev_async_send ptr
  | Ev_timer_stop ptr
  | Ev_timer_again ptr
  | Loop_timer_again
  | Loop_timer_stop
  | Sock_close ptr
  | Connection_count_dec
  | Connection_count_inc
  | Rtsp_session_free "RTSP_session option"
  | Interleaved_free_list ptr
  | G_string_free ptr
  | G_queue_free ptr
  | G_byte_array_free ptr
  | G_slice_free ptr
  | Rtcp_send_sr RTP_session rtcp_pkt_type
  | Reduce_client_list client_port_pair
  | Add_client_list client_port_pair
  | Free_child_port client_port_pair
  | Feng_ports_cleanup
  | Fnc_log string
  | Sleep nat
  | Exit int

text \<open>
  The state of one worker process: the fields of \<open>feng *srv\<close> the file uses
  (\<open>connection_count\<close>, \<open>srvconf.rtcp_heartbeat\<close>, \<open>loop_timer\<close>), the heap of client
  records, the parent's list of child records, the children the operating system holds as
  terminated and not yet waited for (\<open>zombies\<close>) and as still running (\<open>running\<close>),
  whether the process has called \<open>exit\<close>, and the trace.
\<close>

record world =
  connection_count :: int
  rtcp_heartbeat :: int
  loop_timer :: ev_timer
  clients :: "ptr \<rightharpoonup> RTSP_Client"
  client_list :: "client_port_pair list"
  zombies :: "int list"
  running :: "int list"
  exited :: "int option"
  trace :: "event list"

definition LIVE_STREAM_BYE_TIMEOUT :: int where
  "LIVE_STREAM_BYE_TIMEOUT = 6"

definition STREAM_TIMEOUT :: int where
  "STREAM_TIMEOUT = 12"

section \<open>Collaborators\<close>

definition emit :: "event \<Rightarrow> world \<Rightarrow> world" where
  "emit e w = w\<lparr>trace := trace w @ [e]\<rparr>"

text \<open>The events a run has added to the trace since the state \<open>w\<close>.\<close>

definition new_events :: "world \<Rightarrow> world \<Rightarrow> event list" where
  "new_events w w' = drop (length (trace w)) (trace w')"

definition upd_client :: "ptr \<Rightarrow> (RTSP_Client \<Rightarrow> RTSP_Client) \<Rightarrow> world \<Rightarrow> world" where
  "upd_client c f w =
     (case clients w c of
        None \<Rightarrow> w
      | Some rtsp \<Rightarrow> w\<lparr>clients := (clients w)(c \<mapsto> f rtsp)\<rparr>)"

subsection \<open>libev\<close>

definition ev_io_start :: "ptr \<Rightarrow> io_watcher \<Rightarrow> world \<Rightarrow> world" where
  "ev_io_start c k w =
     emit (Ev_io_start c k)
       (upd_client c
          (\<lambda>r. case k of
                  Ev_io_read \<Rightarrow> r\<lparr>ev_io_read := (ev_io_read r)\<lparr>io_active := True\<rparr>\<rparr>
                | Ev_io_write \<Rightarrow> r\<lparr>ev_io_write := (ev_io_write r)\<lparr>io_active := True\<rparr>\<rparr>) w)"

definition ev_io_stop :: "ptr \<Rightarrow> io_watcher \<Rightarrow> world \<Rightarrow> world" where
  "ev_io_stop c k w =
     emit (Ev_io_stop c k)
       (upd_client c
          (\<lambda>r. case k of
                  Ev_io_read \<Rightarrow> r\<lparr>ev_io_read := (ev_io_read r)\<lparr>io_active := False\<rparr>\<rparr>
                | Ev_io_write \<Rightarrow> r\<lparr>ev_io_write := (ev_io_write r)\<lparr>io_active := False\<rparr>\<rparr>) w)"

text \<open>\<open>ev_async_start\<close> clears \<open>sent\<close> and activates the watcher.\<close>

definition ev_async_start :: "ptr \<Rightarrow> world \<Rightarrow> world" where
  "ev_async_start c w =
     emit (Ev_async_start c)
       (upd_client c (\<lambda>r. r\<lparr>ev_sig_disconnect := \<lparr>async_active = True, sent = False\<rparr>\<rparr>) w)"

definition ev_async_stop :: "ptr \<Rightarrow> world \<Rightarrow> world" where
  "ev_async_stop c w =
     emit (Ev_async_stop c)
       (upd_client c
          (\<lambda>r. r\<lparr>ev_sig_disconnect := (ev_sig_disconnect r)\<lparr>async_active := False\<rparr>\<rparr>) w)"

text \<open>
  Modelled from the spec: libev's \<open>ev_async_send\<close> and the loop's delivery of async
  events are not under src/. Section 4.3 of the spec: repeated wake requests that arrive
  before the handler has run are coalesced (one flag, \<open>sent\<close>), and a request made after
  teardown is a no-op (here: the client record is gone, nothing is written).
\<close>

definition ev_async_send :: "ptr \<Rightarrow> world \<Rightarrow> world" where
  "ev_async_send c w =
     emit (Ev_async_send c)
       (upd_client c (\<lambda>r. r\<lparr>ev_sig_disconnect := (ev_sig_disconnect r)\<lparr>sent := True\<rparr>\<rparr>) w)"

definition ev_timer_stop :: "ptr \<Rightarrow> world \<Rightarrow> world" where
  "ev_timer_stop c w =
     emit (Ev_timer_stop c)
       (upd_client c (\<lambda>r. r\<lparr>ev_timeout := (ev_timeout r)\<lparr>timer_active := False\<rparr>\<rparr>) w)"

text \<open>
  \<open>ev_timer_again\<close>: a timer with a positive \<open>repeat\<close> is (re)started, one without is
  stopped.
\<close>

definition ev_timer_again :: "ptr \<Rightarrow> world \<Rightarrow> world" where
  "ev_timer_again c w =
     emit (Ev_timer_again c)
       (upd_client c
          (\<lambda>r. r\<lparr>ev_timeout := (ev_timeout r)\<lparr>timer_active := (0 < repeat (ev_timeout r))\<rparr>\<rparr>) w)"

subsection \<open>GLib queue\<close>

text \<open>\<open>g_queue_pop_tail\<close> returns the data of the last element, or NULL on an empty queue.\<close>

definition g_queue_pop_tail :: "ptr list \<Rightarrow> ptr \<times> ptr list" where
  "g_queue_pop_tail q = (if q = [] then (NULL, []) else (last q, butlast q))"

definition g_queue_push_head :: "ptr \<Rightarrow> ptr list \<Rightarrow> ptr list" where
  "g_queue_push_head b q = b # q"

text \<open>
  Modelled from the spec: the producer of the output queue (the write path that queues
  a pending outbound buffer) is not under src/. The spec has the queue drained in
  insertion order; the drains in this file take from the tail, so a buffer is queued at
  the head.
\<close>

definition out_queue_enqueue :: "ptr list \<Rightarrow> ptr list" where
  "out_queue_enqueue bs = foldl (\<lambda>q b. g_queue_push_head b q) [] bs"

section \<open>\<open>client_ev_disconnect_handler\<close>\<close>

text \<open>
  The loop at lines 74-75:
  \<^verbatim>\<open>while( (outbuf = g_queue_pop_tail(rtsp->out_queue)) ) g_string_free(outbuf, TRUE);\<close>
  It stops at the first NULL that \<open>g_queue_pop_tail\<close> returns.
\<close>

function remove_output_queue :: "ptr \<Rightarrow> world \<Rightarrow> world" where
  "remove_output_queue c w =
     (case clients w c of
        None \<Rightarrow> w
      | Some rtsp \<Rightarrow>
          (case g_queue_pop_tail (out_queue rtsp) of
             (outbuf, q) \<Rightarrow>
               if outbuf \<noteq> NULL
               then remove_output_queue c
                      (emit (G_string_free outbuf)
                         (w\<lparr>clients := (clients w)(c \<mapsto> rtsp\<lparr>out_queue := q\<rparr>)\<rparr>))
               else w\<lparr>clients := (clients w)(c \<mapsto> rtsp\<lparr>out_queue := q\<rparr>)\<rparr>))"
  by pat_completeness auto
termination
  by (relation "measure (\<lambda>(c, w). case clients w c of None \<Rightarrow> 0
                                   | Some rtsp \<Rightarrow> length (out_queue rtsp))")
     (auto simp: emit_def g_queue_pop_tail_def split: if_splits)

text \<open>
  The handler, statement by statement. \<open>trisos\<close> says whether the file was compiled with
  \<open>TRISOS\<close> defined. \<open>w->data\<close> is the client the watcher belongs to; the handler is only
  ever entered for an allocated client.
\<close>

definition client_ev_disconnect_handler :: "bool \<Rightarrow> ptr \<Rightarrow> world \<Rightarrow> world" where
  "client_ev_disconnect_handler trisos c w =
     (case clients w c of
        None \<Rightarrow> w
      | Some rtsp \<Rightarrow>
          let w = ev_io_stop c Ev_io_read w;
              w = ev_io_stop c Ev_io_write w;
              w = ev_async_stop c w;
              w = ev_timer_stop c w;
              w = emit (Sock_close (sock rtsp)) w;
              w = emit Connection_count_dec (w\<lparr>connection_count := connection_count w - 1\<rparr>);
              w = emit (Rtsp_session_free (session rtsp)) w;
              w = emit (Interleaved_free_list c) w;
              w = remove_output_queue c w;
              w = emit (G_queue_free c) w;
              w = emit (G_byte_array_free (input rtsp)) w;
              w = emit (G_slice_free c) (w\<lparr>clients := (clients w)(c := None)\<rparr>);
              w = emit (Fnc_log ''[client] Client removed'') w
          in if trisos
             then emit (Exit 0) (emit (Sleep 1) w)\<lparr>exited := Some 0\<rparr>
             else w)"

section \<open>The disconnect signal on the event loop\<close>

text \<open>
  Modelled from the spec: the loop that delivers the async event is libev's and not under
  src/. Section 4.3 and section 5 of the spec: callbacks run one at a time on the loop;
  a request is a call of \<open>ev_async_send\<close> from any callback; the loop invokes the
  handler of an active watcher whose flag is raised, after lowering the flag. After
  \<open>exit\<close> the process takes no further step.
\<close>

datatype loop_event = Request_disconnect | Deliver_disconnect

definition ev_run_step :: "bool \<Rightarrow> ptr \<Rightarrow> loop_event \<Rightarrow> world \<Rightarrow> world" where
  "ev_run_step trisos c s w =
     (if exited w \<noteq> None then w
      else case s of
        Request_disconnect \<Rightarrow> ev_async_send c w
      | Deliver_disconnect \<Rightarrow>
          (case clients w c of
             None \<Rightarrow> w
           | Some rtsp \<Rightarrow>
               if async_active (ev_sig_disconnect rtsp) \<and> sent (ev_sig_disconnect rtsp)
               then client_ev_disconnect_handler trisos c
                      (upd_client c
                         (\<lambda>r. r\<lparr>ev_sig_disconnect := (ev_sig_disconnect r)\<lparr>sent := False\<rparr>\<rparr>) w)
               else w))"

fun ev_run :: "bool \<Rightarrow> ptr \<Rightarrow> loop_event list \<Rightarrow> world \<Rightarrow> world" where
  "ev_run trisos c [] w = w"
| "ev_run trisos c (s # ss) w = ev_run trisos c ss (ev_run_step trisos c s w)"

text \<open>
  Whether a schedule delivers the signal: some delivery slot comes after a request
  (\<open>p\<close>: a request is already pending).
\<close>

fun delivers :: "bool \<Rightarrow> loop_event list \<Rightarrow> bool" where
  "delivers p [] = False"
| "delivers p (Request_disconnect # ss) = delivers True ss"
| "delivers p (Deliver_disconnect # ss) = (p \<or> delivers p ss)"

section \<open>\<open>check_if_any_rtp_session_timedout\<close> and \<open>client_ev_timeout\<close>\<close>

text \<open>
  Modelled from the spec: \<open>rtcp_send_sr\<close> is not under src/. Section 6 of the spec: the
  collaborator emits the notification on the session's control channel. What the call
  writes into the session record is not known from this file; it is the parameter
  \<open>sr\<close>, applied to the session at each call.
\<close>

type_synonym rtcp_sender = "rtcp_pkt_type \<Rightarrow> RTP_session \<Rightarrow> RTP_session"

definition rtcp_send_sr ::
  "rtcp_sender \<Rightarrow> RTP_session \<Rightarrow> rtcp_pkt_type \<Rightarrow> world \<Rightarrow> RTP_session \<times> world" where
  "rtcp_send_sr sr rs t w = (sr t rs, emit (Rtcp_send_sr rs t) w)"

text \<open>
  \<open>rs\<close> is the session the callback is given (\<open>session\<close> in the source), \<open>now\<close>
  the value \<open>time(NULL)\<close> returns at line 94. With \<open>trisos = False\<close> the
  body is lines 100-104 and 111-114, with \<open>trisos = True\<close> lines 100-104 and 116-135.
\<close>

definition check_if_any_rtp_session_timedout ::
  "bool \<Rightarrow> rtcp_sender \<Rightarrow> int \<Rightarrow> RTP_session \<Rightarrow> world \<Rightarrow> RTP_session \<times> world" where
  "check_if_any_rtp_session_timedout trisos sr now rs w =
     (case (if media_source rs = MS_live \<and>
               now - last_packet_send_time rs \<ge> LIVE_STREAM_BYE_TIMEOUT
            then rtcp_send_sr sr rs BYE
                   (emit (Fnc_log ''[client] Soft stream timeout'') w)
            else (rs, w)) of
        (rs, w) \<Rightarrow>
          if \<not> trisos
          then (if now - last_packet_send_time rs \<ge> STREAM_TIMEOUT
                then (rs,
                      ev_async_send (client rs)
                        (emit (Fnc_log ''[client] Stream Timeout, client kicked off!'') w))
                else (rs, w))
          else if isBye rs \<noteq> 0 \<and>
                  now - last_packet_send_time rs \<ge> STREAM_TIMEOUT
          then (rs,
                ev_async_send (client rs)
                  (emit (Fnc_log ''[client] Stream Timeout, client kicked off!'') w))
          else (case rtcp_send_sr sr rs SDES w of
                  (rs, w) \<Rightarrow>
                    if rtcp_heartbeat w \<noteq> 0 \<and> now - last_rtcp_read_time rs \<ge> 60
                    then (rs,
                          ev_async_send (client rs)
                            (emit (Fnc_log ''[client] Client Lost Connection'') w))
                    else (rs, w)))"

text \<open>\<open>g_slist_foreach\<close> over the RTP sessions, with the callback above.\<close>

fun g_slist_foreach ::
  "bool \<Rightarrow> rtcp_sender \<Rightarrow> int \<Rightarrow> RTP_session list \<Rightarrow> world \<Rightarrow> RTP_session list \<times> world" where
  "g_slist_foreach trisos sr now [] w = ([], w)"
| "g_slist_foreach trisos sr now (s # ss) w =
     (case check_if_any_rtp_session_timedout trisos sr now s w of
        (s', w') \<Rightarrow>
          (case g_slist_foreach trisos sr now ss w' of
             (ss', w'') \<Rightarrow> (s' # ss', w'')))"

text \<open>
  The timer callback. \<open>None\<close>: the callback dereferences a NULL \<open>rtsp->session\<close> (or is
  entered for a client that is not allocated).
\<close>

definition client_ev_timeout ::
  "bool \<Rightarrow> rtcp_sender \<Rightarrow> int \<Rightarrow> ptr \<Rightarrow> world \<Rightarrow> world option" where
  "client_ev_timeout trisos sr now c w =
     (case clients w c of
        None \<Rightarrow> None
      | Some rtsp \<Rightarrow>
          (case session rtsp of
             None \<Rightarrow> None
           | Some sess \<Rightarrow>
               (case (if rtp_sessions sess \<noteq> []
                      then g_slist_foreach trisos sr now (rtp_sessions sess) w
                      else (rtp_sessions sess, w)) of
                  (ss, w) \<Rightarrow>
                    Some (ev_timer_again c
                            (upd_client c
                               (\<lambda>r. r\<lparr>session := Some (sess\<lparr>rtp_sessions := ss\<rparr>)\<rparr>) w)))))"

section \<open>The reaper of the TRISOS build\<close>

text \<open>
  \<open>waitpid(-1, NULL, WNOHANG)\<close>: the id of one terminated child, which is thereby
  released; 0 when children exist and none has terminated; -1 when there is no child.
\<close>

definition waitpid :: "world \<Rightarrow> int \<times> world" where
  "waitpid w =
     (case zombies w of
        [] \<Rightarrow> (if running w = [] then - 1 else 0, w)
      | p # ps \<Rightarrow> (p, w\<lparr>zombies := ps\<rparr>))"

text \<open>
  Modelled from the spec: \<open>get_client_list_item\<close>, \<open>reduce_client_list\<close>,
  \<open>add_client_list\<close> and \<open>free_child_port\<close> are not under src/. Section 4.5 of the
  spec: the reaper locates the tracking record of the process id, removes it and releases
  its reserved port pair; the parent registers the child's process id against its slot.
\<close>

definition get_client_list_item :: "int \<Rightarrow> world \<Rightarrow> client_port_pair option" where
  "get_client_list_item p w = find (\<lambda>r. pid r = p) (client_list w)"

definition reduce_client_list :: "client_port_pair \<Rightarrow> world \<Rightarrow> world" where
  "reduce_client_list r w =
     emit (Reduce_client_list r) (w\<lparr>client_list := remove1 r (client_list w)\<rparr>)"

definition add_client_list :: "client_port_pair \<Rightarrow> world \<Rightarrow> world" where
  "add_client_list r w = emit (Add_client_list r) (w\<lparr>client_list := client_list w @ [r]\<rparr>)"

definition free_child_port :: "client_port_pair \<Rightarrow> world \<Rightarrow> world" where
  "free_child_port r w = emit (Free_child_port r) w"

text \<open>The \<open>while(1)\<close> loop of \<open>timer_watcher_cb\<close>, lines 159-178.\<close>

function reap_children :: "world \<Rightarrow> world" where
  "reap_children w =
     (case waitpid w of
        (p, w') \<Rightarrow>
          if p > 0
          then (case get_client_list_item p w' of
                  Some cl \<Rightarrow>
                    reap_children
                      (free_child_port cl
                         (emit Connection_count_dec
                            ((reduce_client_list cl w')
                               \<lparr>connection_count := connection_count w' - 1\<rparr>)))
                | None \<Rightarrow> reap_children w')
          else w')"
  by pat_completeness auto
termination
  by (relation "measure (\<lambda>w. length (zombies w))")
     (auto simp: waitpid_def free_child_port_def reduce_client_list_def emit_def
           split: list.splits if_splits)

definition timer_watcher_cb :: "world \<Rightarrow> world" where
  "timer_watcher_cb w =
     (let w = reap_children w
      in emit Loop_timer_again
           (w\<lparr>loop_timer := (loop_timer w)\<lparr>timer_active := (0 < repeat (loop_timer w))\<rparr>\<rparr>))"

definition loop_timer_init :: "world \<Rightarrow> world" where
  "loop_timer_init w =
     emit Loop_timer_again (w\<lparr>loop_timer := \<lparr>timer_active = True, repeat = 5\<rparr>\<rparr>)"

definition loop_timer_uninit :: "world \<Rightarrow> world" where
  "loop_timer_uninit w =
     emit Loop_timer_stop (w\<lparr>loop_timer := (loop_timer w)\<lparr>timer_active := False\<rparr>\<rparr>)"

section \<open>\<open>rtsp_client_incoming_cb\<close>\<close>

text \<open>
  What the environment answers during one call: the socket \<open>Sock_accept\<close> returns (NULL
  when no connection is pending), the addresses \<open>g_slice_new0\<close> and \<open>g_byte_array_new\<close>
  return, the record \<open>new_child_port\<close> returns (\<open>None\<close> for NULL) and the value of
  \<open>fork()\<close>.
\<close>

record env =
  Sock_accept_result :: ptr
  g_slice_new0_result :: ptr
  g_byte_array_new_result :: ptr
  new_child_port_result :: "client_port_pair option"
  fork_result :: int

text \<open>\<open>g_slice_new0(RTSP_Client)\<close>: every field zero.\<close>

definition g_slice_new0 :: RTSP_Client where
  "g_slice_new0 =
     \<lparr>sock = NULL, input = NULL, out_queue = [], session = None,
      ev_io_read = \<lparr>io_active = False\<rparr>, ev_io_write = \<lparr>io_active = False\<rparr>,
      ev_sig_disconnect = \<lparr>async_active = False, sent = False\<rparr>,
      ev_timeout = \<lparr>timer_active = False, repeat = 0\<rparr>\<rparr>"

text \<open>
  \<open>ev_init\<close> (and \<open>ev_io_init\<close>, \<open>ev_async_init\<close>, which call it) marks the watcher as
  neither active nor pending and sets its callback; it does not start the watcher.
\<close>

definition ev_io_init :: "ptr \<Rightarrow> io_watcher \<Rightarrow> world \<Rightarrow> world" where
  "ev_io_init c k w =
     upd_client c
       (\<lambda>r. case k of
               Ev_io_read \<Rightarrow> r\<lparr>ev_io_read := \<lparr>io_active = False\<rparr>\<rparr>
             | Ev_io_write \<Rightarrow> r\<lparr>ev_io_write := \<lparr>io_active = False\<rparr>\<rparr>) w"

definition ev_async_init :: "ptr \<Rightarrow> world \<Rightarrow> world" where
  "ev_async_init c w =
     upd_client c
       (\<lambda>r. r\<lparr>ev_sig_disconnect := (ev_sig_disconnect r)\<lparr>async_active := False\<rparr>\<rparr>) w"

definition ev_init :: "ptr \<Rightarrow> world \<Rightarrow> world" where
  "ev_init c w =
     upd_client c (\<lambda>r. r\<lparr>ev_timeout := (ev_timeout r)\<lparr>timer_active := False\<rparr>\<rparr>) w"

text \<open>
  Lines 258-289, the construction of the client: the whole body in the default build, the
  child's branch after \<open>fork\<close> in the TRISOS build.
\<close>

definition rtsp_client_new :: "ptr \<Rightarrow> env \<Rightarrow> world \<Rightarrow> world" where
  "rtsp_client_new client_sock e w =
     (let rtsp = g_slice_new0_result e;
          w = w\<lparr>clients := (clients w)(rtsp \<mapsto>
                 g_slice_new0\<lparr>sock := client_sock,
                              input := g_byte_array_new_result e,
                              out_queue := []\<rparr>)\<rparr>;
          w = emit Connection_count_inc (w\<lparr>connection_count := connection_count w + 1\<rparr>);
          w = ev_io_init rtsp Ev_io_read w;
          w = ev_io_start rtsp Ev_io_read w;
          w = ev_io_init rtsp Ev_io_write w;
          w = emit (Fnc_log ''Incoming RTSP connection accepted on socket: %d'') w;
          w = ev_async_init rtsp w;
          w = ev_async_start rtsp w;
          w = ev_init rtsp w;
          w = upd_client rtsp
                (\<lambda>r. r\<lparr>ev_timeout := (ev_timeout r)\<lparr>repeat := STREAM_TIMEOUT\<rparr>\<rparr>) w
      in emit (Fnc_log ''Connection reached: %d'') w)"

text \<open>\<open>max_conn\<close> is the macro \<open>ONE_FORK_MAX_CONNECTION\<close>, defined outside this file.\<close>

definition rtsp_client_incoming_cb :: "bool \<Rightarrow> int \<Rightarrow> env \<Rightarrow> world \<Rightarrow> world" where
  "rtsp_client_incoming_cb trisos max_conn e w =
     (let client_sock = Sock_accept_result e in
      if client_sock = NULL then w
      else if connection_count w \<ge> max_conn then emit (Sock_close client_sock) w
      else if \<not> trisos then rtsp_client_new client_sock e w
      else (case new_child_port_result e of
              None \<Rightarrow> emit (Sock_close client_sock) w
            | Some cl \<Rightarrow>
                if fork_result e = 0
                then rtsp_client_new client_sock e
                       (emit Feng_ports_cleanup (loop_timer_uninit (free_child_port cl w)))
                else if fork_result e > 0
                then add_client_list (cl\<lparr>pid := fork_result e\<rparr>)
                       (emit (Sock_close client_sock)
                          (emit Connection_count_inc
                             (w\<lparr>connection_count := connection_count w + 1\<rparr>)))
                else emit (Fnc_log ''fork faild'')
                       (free_child_port cl (emit (Sock_close client_sock) w))))"

section \<open>Notions used in the statements\<close>

text \<open>
  The test of lines 100-101, the session as lines 111 and 116 read it (after the call of
  \<open>rtcp_send_sr\<close> at line 103, when that call is made), and the test of line 111
  (default build) or lines 116-117 (TRISOS build).
\<close>

definition soft_expired :: "int \<Rightarrow> RTP_session \<Rightarrow> bool" where
  "soft_expired now rs =
     (media_source rs = MS_live \<and> now - last_packet_send_time rs \<ge> LIVE_STREAM_BYE_TIMEOUT)"

definition after_soft_expiry :: "rtcp_sender \<Rightarrow> int \<Rightarrow> RTP_session \<Rightarrow> RTP_session" where
  "after_soft_expiry sr now rs = (if soft_expired now rs then sr BYE rs else rs)"

definition hard_expired :: "bool \<Rightarrow> int \<Rightarrow> RTP_session \<Rightarrow> bool" where
  "hard_expired trisos now rs =
     ((if trisos then isBye rs \<noteq> 0 else True) \<and>
      now - last_packet_send_time rs \<ge> STREAM_TIMEOUT)"

fun is_disconnect_request :: "event \<Rightarrow> bool" where
  "is_disconnect_request (Ev_async_send c) = True"
| "is_disconnect_request _ = False"

fun is_bye :: "event \<Rightarrow> bool" where
  "is_bye (Rtcp_send_sr rs BYE) = True"
| "is_bye _ = False"

fun is_sdes :: "event \<Rightarrow> bool" where
  "is_sdes (Rtcp_send_sr rs SDES) = True"
| "is_sdes _ = False"

text \<open>The port-pair records that a trace releases with \<open>free_child_port\<close>, in order.\<close>

fun released_ports :: "event list \<Rightarrow> client_port_pair list" where
  "released_ports [] = []"
| "released_ports (Free_child_port r # es) = r # released_ports es"
| "released_ports (_ # es) = released_ports es"

text \<open>
  The numbering of the teardown steps in section 4.2 of the spec, as a function of the
  event; events the spec does not number map to no step.
\<close>

fun spec_step :: "event \<Rightarrow> nat list" where
  "spec_step (Ev_io_stop c Ev_io_read) = [1]"
| "spec_step (Ev_io_stop c Ev_io_write) = [2]"
| "spec_step (Ev_async_stop c) = [3]"
| "spec_step (Ev_timer_stop c) = [4]"
| "spec_step (Sock_close s) = [5]"
| "spec_step Connection_count_dec = [6]"
| "spec_step (Rtsp_session_free s) = [7]"
| "spec_step (G_string_free b) = [8]"
| "spec_step (G_queue_free c) = [9]"
| "spec_step (G_byte_array_free a) = [10]"
| "spec_step (G_slice_free c) = [11]"
| "spec_step _ = []"

text \<open>The buffers that a trace releases with \<open>g_string_free\<close>, in order.\<close>

fun released_buffers :: "event list \<Rightarrow> ptr list" where
  "released_buffers [] = []"
| "released_buffers (G_string_free b # es) = b # released_buffers es"
| "released_buffers (_ # es) = released_buffers es"

section \<open>Example states\<close>

definition example_client :: RTSP_Client where
  "example_client =
     \<lparr>sock = 7, input = 8, out_queue = [13, 12, 11], session = None,
      ev_io_read = \<lparr>io_active = True\<rparr>, ev_io_write = \<lparr>io_active = True\<rparr>,
      ev_sig_disconnect = \<lparr>async_active = True, sent = False\<rparr>,
      ev_timeout = \<lparr>timer_active = True, repeat = 12\<rparr>\<rparr>"

definition example_world :: world where
  "example_world =
     \<lparr>connection_count = 1, rtcp_heartbeat = 0,
      loop_timer = \<lparr>timer_active = False, repeat = 0\<rparr>,
      clients = [5 \<mapsto> example_client], client_list = [], zombies = [], running = [],
      exited = None, trace = []\<rparr>"

definition example_env :: env where
  "example_env =
     \<lparr>Sock_accept_result = 21, g_slice_new0_result = 9, g_byte_array_new_result = 22,
      new_child_port_result = Some \<lparr>pid = 0, port_pair = 30\<rparr>, fork_result = 0\<rparr>"

definition example_parent :: world where
  "example_parent =
     \<lparr>connection_count = 3, rtcp_heartbeat = 0,
      loop_timer = \<lparr>timer_active = True, repeat = 5\<rparr>,
      clients = Map.empty,
      client_list = [\<lparr>pid = 101, port_pair = 30\<rparr>, \<lparr>pid = 102, port_pair = 32\<rparr>,
                     \<lparr>pid = 103, port_pair = 34\<rparr>],
      zombies = [103, 101], running = [102], exited = None, trace = []\<rparr>"

text \<open>A sender that leaves the session record as it is.\<close>

definition rtcp_sender_none :: rtcp_sender where
  "rtcp_sender_none t rs = rs"

text \<open>
  Modelled from the spec: \<open>rtcp_send_sr\<close> is not under src/, and nothing under src/
  writes \<open>isBye\<close>. Section 3 of the spec calls the flag the session's bye-sent flag:
  this sender raises it when it sends a BYE and changes nothing else.
\<close>

definition rtcp_sender_bye_flag :: rtcp_sender where
  "rtcp_sender_bye_flag t rs = (if t = BYE then rs\<lparr>isBye := 1\<rparr> else rs)"

definition example_session :: RTP_session where
  "example_session =
     \<lparr>media_source = MS_live, last_packet_send_time = 0, last_rtcp_read_time = 0,
      isBye = 0, client = 5\<rparr>"

definition example_byed :: RTP_session where
  "example_byed =
     \<lparr>media_source = MS_stored, last_packet_send_time = 0, last_rtcp_read_time = 0,
      isBye = 1, client = 5\<rparr>"

definition example_playing :: RTP_session where
  "example_playing =
     \<lparr>media_source = MS_live, last_packet_send_time = 100, last_rtcp_read_time = 39,
      isBye = 0, client = 5\<rparr>"

definition example_session_world :: world where
  "example_session_world =
     \<lparr>connection_count = 1, rtcp_heartbeat = 1,
      loop_timer = \<lparr>timer_active = False, repeat = 0\<rparr>,
      clients = [5 \<mapsto> \<lparr>sock = 7, input = 8, out_queue = [],
                         session = Some \<lparr>session_addr = 40, rtp_sessions = [example_session]\<rparr>,
                         ev_io_read = \<lparr>io_active = True\<rparr>, ev_io_write = \<lparr>io_active = False\<rparr>,
                         ev_sig_disconnect = \<lparr>async_active = True, sent = False\<rparr>,
                         ev_timeout = \<lparr>timer_active = True, repeat = 12\<rparr>\<rparr>],
      client_list = [], zombies = [], running = [], exited = None, trace = []\<rparr>"

section \<open>Properties\<close>

declare remove_output_queue.simps [simp del]

lemma remove_output_queue_rev:
  "clients w c = Some rtsp \<Longrightarrow> out_queue rtsp = rev r \<Longrightarrow>
   remove_output_queue c w =
     w\<lparr>clients := (clients w)(c \<mapsto> rtsp\<lparr>out_queue := rev (tl (dropWhile (\<lambda>b. b \<noteq> NULL) r))\<rparr>),
       trace := trace w @ map G_string_free (takeWhile (\<lambda>b. b \<noteq> NULL) r)\<rparr>"
proof (induction r arbitrary: w rtsp)
  case Nil
  then show ?case
    by (subst remove_output_queue.simps) (simp add: g_queue_pop_tail_def)
next
  case (Cons b r)
  show ?case
  proof (cases "b = NULL")
    case True
    with Cons.prems show ?thesis
      by (subst remove_output_queue.simps) (simp add: g_queue_pop_tail_def)
  next
    case False
    let ?w = "emit (G_string_free b) (w\<lparr>clients := (clients w)(c \<mapsto> rtsp\<lparr>out_queue := rev r\<rparr>)\<rparr>)"
    have step: "remove_output_queue c w = remove_output_queue c ?w"
      using Cons.prems False
      by (subst remove_output_queue.simps) (simp add: g_queue_pop_tail_def)
    have rest: "remove_output_queue c ?w =
        ?w\<lparr>clients := (clients ?w)(c \<mapsto> rtsp\<lparr>out_queue := rev r\<rparr>
                     \<lparr>out_queue := rev (tl (dropWhile (\<lambda>b. b \<noteq> NULL) r))\<rparr>),
           trace := trace ?w @ map G_string_free (takeWhile (\<lambda>b. b \<noteq> NULL) r)\<rparr>"
      by (rule Cons.IH) (simp_all add: emit_def)
    have "\<dots> = w\<lparr>clients := (clients w)(c \<mapsto> rtsp\<lparr>out_queue := rev (tl (dropWhile (\<lambda>b. b \<noteq> NULL) (b # r)))\<rparr>),
       trace := trace w @ map G_string_free (takeWhile (\<lambda>b. b \<noteq> NULL) (b # r))\<rparr>"
      using False by (simp add: emit_def)
    with step rest show ?thesis
      by (simp only:)
  qed
qed


lemma ev_io_stop_read_at:
  "clients w c = Some r \<Longrightarrow> ev_io_stop c Ev_io_read w =
     w\<lparr>clients := (clients w)(c \<mapsto> r\<lparr>ev_io_read := (ev_io_read r)\<lparr>io_active := False\<rparr>\<rparr>),
       trace := trace w @ [Ev_io_stop c Ev_io_read]\<rparr>"
  by (simp add: ev_io_stop_def upd_client_def emit_def)

lemma ev_io_stop_write_at:
  "clients w c = Some r \<Longrightarrow> ev_io_stop c Ev_io_write w =
     w\<lparr>clients := (clients w)(c \<mapsto> r\<lparr>ev_io_write := (ev_io_write r)\<lparr>io_active := False\<rparr>\<rparr>),
       trace := trace w @ [Ev_io_stop c Ev_io_write]\<rparr>"
  by (simp add: ev_io_stop_def upd_client_def emit_def)

lemma ev_async_stop_at:
  "clients w c = Some r \<Longrightarrow> ev_async_stop c w =
     w\<lparr>clients := (clients w)(c \<mapsto> r\<lparr>ev_sig_disconnect := (ev_sig_disconnect r)\<lparr>async_active := False\<rparr>\<rparr>),
       trace := trace w @ [Ev_async_stop c]\<rparr>"
  by (simp add: ev_async_stop_def upd_client_def emit_def)

lemma ev_timer_stop_at:
  "clients w c = Some r \<Longrightarrow> ev_timer_stop c w =
     w\<lparr>clients := (clients w)(c \<mapsto> r\<lparr>ev_timeout := (ev_timeout r)\<lparr>timer_active := False\<rparr>\<rparr>),
       trace := trace w @ [Ev_timer_stop c]\<rparr>"
  by (simp add: ev_timer_stop_def upd_client_def emit_def)

lemma remove_output_queue_at:
  "clients w c = Some r \<Longrightarrow> remove_output_queue c w =
     w\<lparr>clients := (clients w)(c \<mapsto> r\<lparr>out_queue := rev (tl (dropWhile (\<lambda>b. b \<noteq> NULL) (rev (out_queue r))))\<rparr>),
       trace := trace w @ map G_string_free (takeWhile (\<lambda>b. b \<noteq> NULL) (rev (out_queue r)))\<rparr>"
  by (rule remove_output_queue_rev) simp_all

lemma client_ev_disconnect_handler_run:
  assumes "clients w c = Some rtsp"
  shows "client_ev_disconnect_handler trisos c w =
     w\<lparr>connection_count := connection_count w - 1,
       clients := (clients w)(c := None),
       exited := (if trisos then Some 0 else exited w),
       trace := trace w @
         [Ev_io_stop c Ev_io_read, Ev_io_stop c Ev_io_write, Ev_async_stop c,
          Ev_timer_stop c, Sock_close (sock rtsp), Connection_count_dec,
          Rtsp_session_free (session rtsp), Interleaved_free_list c] @
         map G_string_free (takeWhile (\<lambda>b. b \<noteq> NULL) (rev (out_queue rtsp))) @
         [G_queue_free c, G_byte_array_free (input rtsp), G_slice_free c,
          Fnc_log ''[client] Client removed''] @
         (if trisos then [Sleep 1, Exit 0] else [])\<rparr>"
  using assms
  by (simp add: client_ev_disconnect_handler_def ev_io_stop_read_at ev_io_stop_write_at
      ev_async_stop_at ev_timer_stop_at remove_output_queue_at emit_def Let_def
      cong: let_weak_cong)


lemma ev_run_dead:
  "clients w c = None \<or> exited w \<noteq> None \<Longrightarrow>
   connection_count (ev_run trisos c ss w) = connection_count w \<and>
   count_list (trace (ev_run trisos c ss w)) (G_slice_free c) = count_list (trace w) (G_slice_free c) \<and>
   count_list (trace (ev_run trisos c ss w)) Connection_count_dec = count_list (trace w) Connection_count_dec"
proof (induction ss arbitrary: w)
  case Nil
  then show ?case by simp
next
  case (Cons s ss)
  let ?w = "ev_run_step trisos c s w"
  from Cons.prems have dead: "clients ?w c = None \<or> exited ?w \<noteq> None"
    by (cases s) (auto simp: ev_run_step_def ev_async_send_def upd_client_def emit_def)
  from Cons.prems have same: "connection_count ?w = connection_count w
      \<and> count_list (trace ?w) (G_slice_free c) = count_list (trace w) (G_slice_free c)
      \<and> count_list (trace ?w) Connection_count_dec = count_list (trace w) Connection_count_dec"
    by (cases s) (auto simp: ev_run_step_def ev_async_send_def upd_client_def emit_def)
  from Cons.IH [OF dead] same show ?case by simp
qed

lemma count_list_map_G_string_free:
  "count_list (map G_string_free bs) (G_slice_free c) = 0"
  "count_list (map G_string_free bs) Connection_count_dec = 0"
  by (induction bs) simp_all

lemma ev_run_alive:
  "clients w c = Some rtsp \<Longrightarrow> async_active (ev_sig_disconnect rtsp) \<Longrightarrow> exited w = None \<Longrightarrow>
   connection_count (ev_run trisos c ss w) =
     connection_count w - (if delivers (sent (ev_sig_disconnect rtsp)) ss then 1 else 0) \<and>
   count_list (trace (ev_run trisos c ss w)) (G_slice_free c) =
     count_list (trace w) (G_slice_free c) + (if delivers (sent (ev_sig_disconnect rtsp)) ss then 1 else 0) \<and>
   count_list (trace (ev_run trisos c ss w)) Connection_count_dec =
     count_list (trace w) Connection_count_dec + (if delivers (sent (ev_sig_disconnect rtsp)) ss then 1 else 0)"
proof (induction ss arbitrary: w rtsp)
  case Nil
  then show ?case by simp
next
  case (Cons s ss)
  show ?case
  proof (cases s)
    case Request_disconnect
    let ?r = "rtsp\<lparr>ev_sig_disconnect := (ev_sig_disconnect rtsp)\<lparr>sent := True\<rparr>\<rparr>"
    let ?w = "ev_run_step trisos c Request_disconnect w"
    from Cons.prems
    have w': "?w = w\<lparr>clients := (clients w)(c \<mapsto> ?r), trace := trace w @ [Ev_async_send c]\<rparr>"
      by (simp add: ev_run_step_def ev_async_send_def upd_client_def emit_def)
    have "clients ?w c = Some ?r" "async_active (ev_sig_disconnect ?r)" "exited ?w = None"
      using Cons.prems by (simp_all add: w')
    from Cons.IH [OF this] show ?thesis
      unfolding Request_disconnect by (simp add: w')
  next
    case Deliver_disconnect
    show ?thesis
    proof (cases "sent (ev_sig_disconnect rtsp)")
      case True
      let ?r = "rtsp\<lparr>ev_sig_disconnect := (ev_sig_disconnect rtsp)\<lparr>sent := False\<rparr>\<rparr>"
      let ?v = "w\<lparr>clients := (clients w)(c \<mapsto> ?r)\<rparr>"
      let ?w = "ev_run_step trisos c Deliver_disconnect w"
      from Cons.prems True
      have w': "?w = client_ev_disconnect_handler trisos c ?v"
        by (simp add: ev_run_step_def upd_client_def)
      have "clients ?v c = Some ?r" by simp
      note run = client_ev_disconnect_handler_run [OF this, of trisos]
      have dead: "clients ?w c = None \<or> exited ?w \<noteq> None"
        by (simp add: w' run)
      have "connection_count ?w = connection_count w - 1
        \<and> count_list (trace ?w) (G_slice_free c) = count_list (trace w) (G_slice_free c) + 1
        \<and> count_list (trace ?w) Connection_count_dec = count_list (trace w) Connection_count_dec + 1"
        by (simp add: w' run count_list_map_G_string_free)
      with ev_run_dead [OF dead, of trisos ss] True show ?thesis
        unfolding Deliver_disconnect by simp
    next
      case False
      with Cons.prems have "ev_run_step trisos c Deliver_disconnect w = w"
        by (simp add: ev_run_step_def)
      with Cons.IH [OF Cons.prems] False show ?thesis
        unfolding Deliver_disconnect by simp
    qed
  qed
qed



lemma new_events_append: "trace w' = trace w @ es \<Longrightarrow> new_events w w' = es"
  by (simp add: new_events_def)

lemma handler_new_events:
  assumes "clients w c = Some rtsp"
  shows "new_events w (client_ev_disconnect_handler trisos c w) =
         [Ev_io_stop c Ev_io_read, Ev_io_stop c Ev_io_write, Ev_async_stop c,
          Ev_timer_stop c, Sock_close (sock rtsp), Connection_count_dec,
          Rtsp_session_free (session rtsp), Interleaved_free_list c] @
         map G_string_free (takeWhile (\<lambda>b. b \<noteq> NULL) (rev (out_queue rtsp))) @
         [G_queue_free c, G_byte_array_free (input rtsp), G_slice_free c,
          Fnc_log ''[client] Client removed''] @
         (if trisos then [Sleep 1, Exit 0] else [])"
  by (rule new_events_append) (simp add: client_ev_disconnect_handler_run [OF assms])

lemma takeWhile_no_NULL: "NULL \<notin> set q \<Longrightarrow> takeWhile (\<lambda>b. NULL < b) (rev q) = rev q"
  by (metis takeWhile_eq_all_conv set_rev gr0I)

lemma spec_step_buffers: "concat (map (spec_step \<circ> G_string_free) bs) = replicate (length bs) 8"
  by (induction bs) simp_all

lemma released_buffers_append:
  "released_buffers (es @ fs) = released_buffers es @ released_buffers fs"
  by (induction es rule: released_buffers.induct) simp_all

lemma released_buffers_map: "released_buffers (map G_string_free bs) = bs"
  by (induction bs) simp_all

lemma out_queue_enqueue_rev: "out_queue_enqueue bs = rev bs"
proof -
  have "foldl (\<lambda>q b. g_queue_push_head b q) q bs = rev bs @ q" for q
    by (induction bs arbitrary: q) (simp_all add: g_queue_push_head_def)
  then show ?thesis by (simp add: out_queue_enqueue_def)
qed

text \<open>
  Claim C2. Teardown performs, in this order: stop the read watcher, stop the write
  watcher, stop the disconnect signal, stop the liveness timer, close the connection,
  decrement the live-connection counter, free the session, release every queued output
  buffer, release the queue container, release the input buffer, release the client
  record. The trace of the handler is exactly the list below (the code also releases the
  interleaved-channel list between steps 7 and 8, logs, and in the TRISOS build sleeps
  and exits at the end); read through the spec's numbering it is steps 1 to 11 in order,
  so every watcher is stopped before anything is released.
\<close>

theorem teardown_order:
  assumes "clients w c = Some rtsp" and "NULL \<notin> set (out_queue rtsp)"
  shows "new_events w (client_ev_disconnect_handler trisos c w) =
           [Ev_io_stop c Ev_io_read, Ev_io_stop c Ev_io_write, Ev_async_stop c,
            Ev_timer_stop c, Sock_close (sock rtsp), Connection_count_dec,
            Rtsp_session_free (session rtsp), Interleaved_free_list c] @
           map G_string_free (rev (out_queue rtsp)) @
           [G_queue_free c, G_byte_array_free (input rtsp), G_slice_free c,
            Fnc_log ''[client] Client removed''] @
           (if trisos then [Sleep 1, Exit 0] else [])
       \<and> concat (map spec_step (new_events w (client_ev_disconnect_handler trisos c w))) =
           [1, 2, 3, 4, 5, 6, 7] @ replicate (length (out_queue rtsp)) 8 @ [9, 10, 11]"
  using assms
  by (cases trisos) (simp_all add: handler_new_events takeWhile_no_NULL spec_step_buffers)

theorem teardown_order_witness:
  "clients example_world 5 = Some example_client \<and> NULL \<notin> set (out_queue example_client) \<and>
   new_events example_world (client_ev_disconnect_handler False 5 example_world) =
     [Ev_io_stop 5 Ev_io_read, Ev_io_stop 5 Ev_io_write, Ev_async_stop 5, Ev_timer_stop 5,
      Sock_close 7, Connection_count_dec, Rtsp_session_free None, Interleaved_free_list 5,
      G_string_free 11, G_string_free 12, G_string_free 13,
      G_queue_free 5, G_byte_array_free 8, G_slice_free 5,
      Fnc_log ''[client] Client removed'']"
  using teardown_order [of example_world 5 example_client False]
  by (simp add: example_world_def example_client_def)

text \<open>
  Claim C3. Buffers queued in the order \<open>bs\<close> are released by teardown in that same
  order, and none twice: the list of released buffers is \<open>bs\<close> itself, which is the
  queue read from its tail to its head, every entry once.
\<close>

theorem teardown_fifo:
  assumes "clients w c = Some rtsp" and "out_queue rtsp = out_queue_enqueue bs"
    and "NULL \<notin> set bs"
  shows "released_buffers (new_events w (client_ev_disconnect_handler trisos c w)) = bs
       \<and> released_buffers (new_events w (client_ev_disconnect_handler trisos c w)) =
           rev (out_queue rtsp)"
  using assms
  by (simp add: handler_new_events out_queue_enqueue_rev takeWhile_no_NULL [of "rev bs", simplified]
      released_buffers_append released_buffers_map)

theorem teardown_fifo_witness:
  "clients example_world 5 = Some example_client \<and>
   out_queue example_client = out_queue_enqueue [11, 12, 13] \<and> NULL \<notin> set [11, 12, 13 :: ptr] \<and>
   released_buffers (new_events example_world (client_ev_disconnect_handler True 5 example_world))
     = [11, 12, 13]"
  using teardown_fifo [of example_world 5 example_client "[11, 12, 13]" True]
  by (simp add: example_world_def example_client_def out_queue_enqueue_def g_queue_push_head_def)

text \<open>
  Claim C1. Whatever the schedule of disconnect requests and delivery slots for a client,
  the teardown body runs at most once and the live-connection counter is decremented at
  most once for it; it is exactly once when some delivery slot follows a request.
\<close>

theorem disconnect_at_most_once:
  assumes "clients w c = Some rtsp" and "async_active (ev_sig_disconnect rtsp)"
    and "exited w = None"
  shows "count_list (trace (ev_run trisos c ss w)) (G_slice_free c) =
           count_list (trace w) (G_slice_free c) +
           (if delivers (sent (ev_sig_disconnect rtsp)) ss then 1 else 0)
       \<and> count_list (trace (ev_run trisos c ss w)) Connection_count_dec =
           count_list (trace w) Connection_count_dec +
           (if delivers (sent (ev_sig_disconnect rtsp)) ss then 1 else 0)
       \<and> connection_count (ev_run trisos c ss w) =
           connection_count w - (if delivers (sent (ev_sig_disconnect rtsp)) ss then 1 else 0)"
  using ev_run_alive [OF assms, of trisos ss] by simp

theorem disconnect_at_most_once_witness:
  "clients example_world 5 = Some example_client \<and>
   async_active (ev_sig_disconnect example_client) \<and> exited example_world = None \<and>
   count_list (trace (ev_run False 5
       [Request_disconnect, Request_disconnect, Request_disconnect, Deliver_disconnect,
        Request_disconnect, Deliver_disconnect] example_world)) (G_slice_free 5) = 1 \<and>
   count_list (trace (ev_run False 5
       [Request_disconnect, Request_disconnect, Request_disconnect, Deliver_disconnect,
        Request_disconnect, Deliver_disconnect] example_world)) Connection_count_dec = 1 \<and>
   connection_count (ev_run False 5
       [Request_disconnect, Request_disconnect, Request_disconnect, Deliver_disconnect,
        Request_disconnect, Deliver_disconnect] example_world) = 0"
  using disconnect_at_most_once [of example_world 5 example_client False
       "[Request_disconnect, Request_disconnect, Request_disconnect, Deliver_disconnect,
        Request_disconnect, Deliver_disconnect]"]
  by (simp add: example_world_def example_client_def)

subsection \<open>Admission\<close>

lemma rtsp_client_new_run:
  "rtsp_client_new client_sock e w =
     w\<lparr>connection_count := connection_count w + 1,
       clients := (clients w)(g_slice_new0_result e \<mapsto>
          \<lparr>sock = client_sock, input = g_byte_array_new_result e, out_queue = [],
           session = None,
           ev_io_read = \<lparr>io_active = True\<rparr>, ev_io_write = \<lparr>io_active = False\<rparr>,
           ev_sig_disconnect = \<lparr>async_active = True, sent = False\<rparr>,
           ev_timeout = \<lparr>timer_active = False, repeat = 12\<rparr>\<rparr>),
       trace := trace w @
         [Connection_count_inc, Ev_io_start (g_slice_new0_result e) Ev_io_read,
          Fnc_log ''Incoming RTSP connection accepted on socket: %d'',
          Ev_async_start (g_slice_new0_result e),
          Fnc_log ''Connection reached: %d'']\<rparr>"
  by (simp add: rtsp_client_new_def g_slice_new0_def ev_io_init_def ev_io_start_def
      ev_async_init_def ev_async_start_def ev_init_def upd_client_def emit_def
      STREAM_TIMEOUT_def Let_def cong: let_weak_cong)

text \<open>
  Claim C4. When a connection is accepted while the live-connection counter has reached
  the ceiling, \<open>rtsp_client_incoming_cb\<close> closes the accepted socket and returns: the
  state is the one before the call with that one \<open>Sock_close\<close> added to the trace, so no
  client record is created and the counter is unchanged. Both builds.
\<close>

theorem admission_ceiling:
  assumes "Sock_accept_result e \<noteq> NULL" and "max_conn \<le> connection_count w"
  shows "rtsp_client_incoming_cb trisos max_conn e w =
           w\<lparr>trace := trace w @ [Sock_close (Sock_accept_result e)]\<rparr>"
  using assms by (simp add: rtsp_client_incoming_cb_def emit_def)

theorem admission_ceiling_witness:
  "Sock_accept_result example_env \<noteq> NULL \<and> (1::int) \<le> connection_count example_world \<and>
   rtsp_client_incoming_cb False 1 example_env example_world =
     example_world\<lparr>trace := [Sock_close 21]\<rparr>"
  using admission_ceiling [of example_env 1 example_world False]
  by (simp add: example_env_def example_world_def)

text \<open>The reaper's timer, by contrast, is started where it is initialised.\<close>

lemma loop_timer_init_starts: "timer_active (loop_timer (loop_timer_init w))"
  by (simp add: loop_timer_init_def emit_def)

text \<open>
  Claim C9, as amended. For every admitted connection (in the TRISOS build: in the child,
  after a port pair was reserved and \<open>fork\<close> returned 0) the new client record has its
  read watcher started, its write watcher initialised and not started, its disconnect
  signal started with no request pending, and its liveness timer initialised with the
  repeat interval \<open>STREAM_TIMEOUT\<close> and not started; the counter is one higher; the
  calls made are the ones listed, none of which starts the timer.
\<close>

theorem create_client_wiring:
  assumes "Sock_accept_result e \<noteq> NULL" and "connection_count w < max_conn"
    and "if trisos then new_child_port_result e = Some cl \<and> fork_result e = 0 else True"
  shows "clients (rtsp_client_incoming_cb trisos max_conn e w) (g_slice_new0_result e) =
           Some \<lparr>sock = Sock_accept_result e, input = g_byte_array_new_result e,
                 out_queue = [], session = None,
                 ev_io_read = \<lparr>io_active = True\<rparr>, ev_io_write = \<lparr>io_active = False\<rparr>,
                 ev_sig_disconnect = \<lparr>async_active = True, sent = False\<rparr>,
                 ev_timeout = \<lparr>timer_active = False, repeat = STREAM_TIMEOUT\<rparr>\<rparr>
       \<and> connection_count (rtsp_client_incoming_cb trisos max_conn e w) = connection_count w + 1
       \<and> new_events w (rtsp_client_incoming_cb trisos max_conn e w) =
           (if trisos then [Free_child_port cl, Loop_timer_stop, Feng_ports_cleanup] else []) @
           [Connection_count_inc, Ev_io_start (g_slice_new0_result e) Ev_io_read,
            Fnc_log ''Incoming RTSP connection accepted on socket: %d'',
            Ev_async_start (g_slice_new0_result e),
            Fnc_log ''Connection reached: %d'']"
  using assms
  by (cases trisos)
     (simp_all add: rtsp_client_incoming_cb_def rtsp_client_new_run new_events_def
        free_child_port_def loop_timer_uninit_def emit_def STREAM_TIMEOUT_def)

theorem create_client_wiring_witness:
  "Sock_accept_result example_env \<noteq> NULL \<and> connection_count example_world < 10 \<and>
   new_child_port_result example_env = Some \<lparr>pid = 0, port_pair = 30\<rparr> \<and>
   fork_result example_env = 0 \<and>
   clients (rtsp_client_incoming_cb True 10 example_env example_world) 9 =
           Some \<lparr>sock = 21, input = 22, out_queue = [], session = None,
                 ev_io_read = \<lparr>io_active = True\<rparr>, ev_io_write = \<lparr>io_active = False\<rparr>,
                 ev_sig_disconnect = \<lparr>async_active = True, sent = False\<rparr>,
                 ev_timeout = \<lparr>timer_active = False, repeat = 12\<rparr>\<rparr> \<and>
   connection_count (rtsp_client_incoming_cb True 10 example_env example_world) = 2 \<and>
   new_events example_world (rtsp_client_incoming_cb True 10 example_env example_world) =
           [Free_child_port \<lparr>pid = 0, port_pair = 30\<rparr>, Loop_timer_stop, Feng_ports_cleanup,
            Connection_count_inc, Ev_io_start 9 Ev_io_read,
            Fnc_log ''Incoming RTSP connection accepted on socket: %d'',
            Ev_async_start 9, Fnc_log ''Connection reached: %d'']"
  using create_client_wiring [of example_env example_world 10 True "\<lparr>pid = 0, port_pair = 30\<rparr>"]
  by (simp add: example_env_def example_world_def STREAM_TIMEOUT_def)

text \<open>
  The claim as stated fails in the default build: after the admission of a connection
  the client record exists, its liveness timer is not active, and the trace holds no call
  that starts it.
\<close>

theorem create_client_timer_counterexample:
  "clients (rtsp_client_incoming_cb False 10 example_env example_world) 9 \<noteq> None \<and>
   \<not> timer_active (ev_timeout (the (clients
        (rtsp_client_incoming_cb False 10 example_env example_world) 9))) \<and>
   Ev_timer_again 9 \<notin> set (trace (rtsp_client_incoming_cb False 10 example_env example_world))"
  by (simp add: rtsp_client_incoming_cb_def rtsp_client_new_run example_env_def example_world_def)

subsection \<open>The liveness tick\<close>

lemma trace_upd_client [simp]: "trace (upd_client c f w) = trace w"
  by (simp add: upd_client_def split: option.split)

lemma rtcp_heartbeat_upd_client [simp]: "rtcp_heartbeat (upd_client c f w) = rtcp_heartbeat w"
  by (simp add: upd_client_def split: option.split)

lemma check_new_events:
  "new_events w (snd (check_if_any_rtp_session_timedout trisos sr now rs w)) =
     (if soft_expired now rs
      then [Fnc_log ''[client] Soft stream timeout'', Rtcp_send_sr rs BYE] else []) @
     (if hard_expired trisos now (after_soft_expiry sr now rs)
      then [Fnc_log ''[client] Stream Timeout, client kicked off!'',
            Ev_async_send (client (after_soft_expiry sr now rs))]
      else if trisos
      then Rtcp_send_sr (after_soft_expiry sr now rs) SDES #
           (if rtcp_heartbeat w \<noteq> 0 \<and>
               now - last_rtcp_read_time (sr SDES (after_soft_expiry sr now rs)) \<ge> 60
            then [Fnc_log ''[client] Client Lost Connection'',
                  Ev_async_send (client (sr SDES (after_soft_expiry sr now rs)))]
            else [])
      else [])"
  by (simp add: check_if_any_rtp_session_timedout_def rtcp_send_sr_def ev_async_send_def
      emit_def new_events_def soft_expired_def after_soft_expiry_def hard_expired_def)


text \<open>
  The callback is run for every RTP session of the client, in list order, and the timer
  is re-armed afterwards: the events of a tick are the events of its sessions, followed
  by \<open>ev_timer_again\<close>.
\<close>

lemma check_trace:
  "trace (snd (check_if_any_rtp_session_timedout trisos sr now rs w)) =
     trace w @ new_events w (snd (check_if_any_rtp_session_timedout trisos sr now rs w))"
  by (simp add: check_if_any_rtp_session_timedout_def rtcp_send_sr_def ev_async_send_def
      emit_def new_events_def)

lemma check_rtcp_heartbeat:
  "rtcp_heartbeat (snd (check_if_any_rtp_session_timedout trisos sr now rs w)) = rtcp_heartbeat w"
  by (simp add: check_if_any_rtp_session_timedout_def rtcp_send_sr_def ev_async_send_def
      emit_def)

lemma check_events_world:
  "rtcp_heartbeat w' = rtcp_heartbeat w \<Longrightarrow>
   new_events w' (snd (check_if_any_rtp_session_timedout trisos sr now rs w')) =
   new_events w (snd (check_if_any_rtp_session_timedout trisos sr now rs w))"
  by (simp add: check_new_events)

lemma g_slist_foreach_events:
  "trace (snd (g_slist_foreach trisos sr now ss w)) =
     trace w @ concat (map (\<lambda>rs. new_events w
        (snd (check_if_any_rtp_session_timedout trisos sr now rs w))) ss)
   \<and> rtcp_heartbeat (snd (g_slist_foreach trisos sr now ss w)) = rtcp_heartbeat w"
proof (induction ss arbitrary: w)
  case Nil
  then show ?case by simp
next
  case (Cons rs ss)
  obtain rs' w' where c: "check_if_any_rtp_session_timedout trisos sr now rs w = (rs', w')"
    by (cases "check_if_any_rtp_session_timedout trisos sr now rs w")
  obtain ss' w'' where f: "g_slist_foreach trisos sr now ss w' = (ss', w'')"
    by (cases "g_slist_foreach trisos sr now ss w'")
  have hb: "rtcp_heartbeat w' = rtcp_heartbeat w"
    using check_rtcp_heartbeat [of trisos sr now rs w] c by simp
  have tr: "trace w' = trace w @ new_events w w'"
    using check_trace [of trisos sr now rs w] c by simp
  have same: "map (\<lambda>rs. new_events w'
        (snd (check_if_any_rtp_session_timedout trisos sr now rs w'))) ss =
      map (\<lambda>rs. new_events w
        (snd (check_if_any_rtp_session_timedout trisos sr now rs w))) ss"
    using hb by (simp add: check_events_world [where w' = w' and w = w])
  have IH: "trace w'' = trace w' @ concat (map (\<lambda>rs. new_events w'
        (snd (check_if_any_rtp_session_timedout trisos sr now rs w'))) ss)"
    and IH_hb: "rtcp_heartbeat w'' = rtcp_heartbeat w'"
    using Cons.IH [of w'] f by simp_all
  have res: "snd (g_slist_foreach trisos sr now (rs # ss) w) = w''"
    by (simp add: c f)
  have ev: "new_events w (snd (check_if_any_rtp_session_timedout trisos sr now rs w)) =
      new_events w w'"
    by (simp add: c)
  show ?case
    unfolding res IH IH_hb same hb by (simp add: ev) (subst tr, simp)
qed


lemma client_ev_timeout_events:
  assumes "clients w c = Some rtsp" and "session rtsp = Some sess"
  shows "\<exists>w'. client_ev_timeout trisos sr now c w = Some w' \<and>
     new_events w w' =
       concat (map (\<lambda>rs. new_events w
          (snd (check_if_any_rtp_session_timedout trisos sr now rs w))) (rtp_sessions sess)) @
       [Ev_timer_again c]"
proof -
  obtain ss w1 where f: "g_slist_foreach trisos sr now (rtp_sessions sess) w = (ss, w1)"
    by (cases "g_slist_foreach trisos sr now (rtp_sessions sess) w")
  have tr: "trace w1 = trace w @ concat (map (\<lambda>rs. new_events w
          (snd (check_if_any_rtp_session_timedout trisos sr now rs w))) (rtp_sessions sess))"
    using g_slist_foreach_events [of trisos sr now "rtp_sessions sess" w] f by simp
  have run: "client_ev_timeout trisos sr now c w =
      Some (ev_timer_again c
              (upd_client c (\<lambda>r. r\<lparr>session := Some (sess\<lparr>rtp_sessions := ss\<rparr>)\<rparr>) w1))"
  proof (cases "rtp_sessions sess = []")
    case True
    with f have "ss = []" "w1 = w" by simp_all
    with assms True show ?thesis by (simp add: client_ev_timeout_def)
  next
    case False
    with assms f show ?thesis by (simp add: client_ev_timeout_def)
  qed
  show ?thesis
    unfolding run by (simp add: ev_timer_again_def emit_def new_events_def tr)
qed

text \<open>
  Claim C5. For a live session with no packet sent for 12 time units, the tick first logs
  the soft timeout and sends the BYE; a disconnect request of that tick comes after
  them. Both builds, whatever \<open>rtcp_send_sr\<close> writes into the session.
\<close>

theorem soft_before_hard:
  assumes "media_source rs = MS_live" and "now - last_packet_send_time rs \<ge> 12"
  shows "take 2 (new_events w (snd (check_if_any_rtp_session_timedout trisos sr now rs w))) =
           [Fnc_log ''[client] Soft stream timeout'', Rtcp_send_sr rs BYE]
       \<and> Rtcp_send_sr rs BYE \<in> set (takeWhile (\<lambda>e. \<not> is_disconnect_request e)
           (new_events w (snd (check_if_any_rtp_session_timedout trisos sr now rs w))))"
  using assms
  by (simp add: check_new_events soft_expired_def LIVE_STREAM_BYE_TIMEOUT_def)

theorem soft_before_hard_witness:
  "media_source example_session = MS_live \<and> 12 - last_packet_send_time example_session \<ge> 12 \<and>
   new_events example_world
     (snd (check_if_any_rtp_session_timedout False rtcp_sender_none 12 example_session example_world)) =
     [Fnc_log ''[client] Soft stream timeout'', Rtcp_send_sr example_session BYE,
      Fnc_log ''[client] Stream Timeout, client kicked off!'', Ev_async_send 5] \<and>
   take 2 (new_events example_world
     (snd (check_if_any_rtp_session_timedout False rtcp_sender_none 12 example_session example_world))) =
     [Fnc_log ''[client] Soft stream timeout'', Rtcp_send_sr example_session BYE]"
  using soft_before_hard [of example_session 12 example_world False rtcp_sender_none]
  by (simp add: check_new_events soft_expired_def hard_expired_def after_soft_expiry_def
      example_session_def rtcp_sender_none_def LIVE_STREAM_BYE_TIMEOUT_def STREAM_TIMEOUT_def)

text \<open>
  Claim C6, as amended. In the TRISOS build a tick sends the SDES heartbeat to every
  session that it does not hard-expire (bye flag unset, or less than 12 time units since
  the last packet), and for such a session it requests the disconnect exactly when
  \<open>rtcp_heartbeat\<close> is non-zero and at least 60 time units have passed since the last
  RTCP read; a session that it hard-expires gets the disconnect request and no SDES.
\<close>

theorem heartbeat_tick:
  "filter is_sdes
     (new_events w (snd (check_if_any_rtp_session_timedout True sr now rs w))) =
     (if hard_expired True now (after_soft_expiry sr now rs) then []
      else [Rtcp_send_sr (after_soft_expiry sr now rs) SDES])
   \<and> filter is_disconnect_request
     (new_events w (snd (check_if_any_rtp_session_timedout True sr now rs w))) =
     (if hard_expired True now (after_soft_expiry sr now rs)
      then [Ev_async_send (client (after_soft_expiry sr now rs))]
      else if rtcp_heartbeat w \<noteq> 0 \<and>
              now - last_rtcp_read_time (sr SDES (after_soft_expiry sr now rs)) \<ge> 60
      then [Ev_async_send (client (sr SDES (after_soft_expiry sr now rs)))]
      else [])"
  by (simp add: check_new_events)

theorem heartbeat_tick_witness:
  "new_events example_session_world
     (snd (check_if_any_rtp_session_timedout True rtcp_sender_none 100 example_playing
             example_session_world)) =
     [Rtcp_send_sr example_playing SDES, Fnc_log ''[client] Client Lost Connection'',
      Ev_async_send 5] \<and>
   filter is_sdes (new_events example_session_world
     (snd (check_if_any_rtp_session_timedout True rtcp_sender_none 100 example_playing
             example_session_world))) = [Rtcp_send_sr example_playing SDES] \<and>
   filter is_disconnect_request (new_events example_session_world
     (snd (check_if_any_rtp_session_timedout True rtcp_sender_none 100 example_playing
             example_session_world))) = [Ev_async_send 5]"
  using heartbeat_tick [of example_session_world rtcp_sender_none 100 example_playing]
  by (simp add: check_new_events soft_expired_def hard_expired_def after_soft_expiry_def
      example_playing_def example_session_world_def rtcp_sender_none_def
      LIVE_STREAM_BYE_TIMEOUT_def STREAM_TIMEOUT_def)

text \<open>
  The claim as stated fails for a session that the tick hard-expires (bye flag set, 12
  time units without a packet): the tick logs and requests the disconnect, and sends no
  SDES.
\<close>

theorem heartbeat_every_session_counterexample:
  "new_events example_session_world
     (snd (check_if_any_rtp_session_timedout True rtcp_sender_none 12 example_byed
             example_session_world)) =
     [Fnc_log ''[client] Stream Timeout, client kicked off!'', Ev_async_send 5] \<and>
   Rtcp_send_sr example_byed SDES \<notin> set (new_events example_session_world
     (snd (check_if_any_rtp_session_timedout True rtcp_sender_none 12 example_byed
             example_session_world)))"
  by (simp add: check_new_events soft_expired_def hard_expired_def after_soft_expiry_def
      example_byed_def rtcp_sender_none_def LIVE_STREAM_BYE_TIMEOUT_def STREAM_TIMEOUT_def)

text \<open>
  Claim C7, as amended. Whether a tick sends a BYE to a session depends on the media
  source and on the time since the last packet only: whatever the value \<open>b\<close> of the bye
  flag, the tick sends exactly one BYE when the source is live and at least
  \<open>LIVE_STREAM_BYE_TIMEOUT\<close> time units have passed, and none otherwise. Both builds.
\<close>

theorem bye_every_tick:
  "filter is_bye
     (new_events w (snd (check_if_any_rtp_session_timedout trisos sr now (rs\<lparr>isBye := b\<rparr>) w))) =
     (if media_source rs = MS_live \<and> now - last_packet_send_time rs \<ge> LIVE_STREAM_BYE_TIMEOUT
      then [Rtcp_send_sr (rs\<lparr>isBye := b\<rparr>) BYE] else [])"
  by (simp add: check_new_events soft_expired_def)

theorem bye_every_tick_witness:
  "filter is_bye
     (new_events example_world
        (snd (check_if_any_rtp_session_timedout True rtcp_sender_bye_flag 7
                (example_session\<lparr>isBye := 1\<rparr>) example_world))) =
     [Rtcp_send_sr (example_session\<lparr>isBye := 1\<rparr>) BYE]"
  using bye_every_tick [where w = example_world and trisos = True and sr = rtcp_sender_bye_flag
      and now = 7 and rs = example_session and b = 1]
  by (simp add: example_session_def LIVE_STREAM_BYE_TIMEOUT_def)

text \<open>
  The claim as stated fails: two successive ticks, at times 7 and 19, on a client whose
  one live session sent its last packet at time 0, in the default build and in the
  TRISOS build. The first tick sends a BYE and requests no disconnect; the second sends
  a BYE again, to the session whose bye flag the first BYE has raised, before it
  requests the disconnect.
\<close>

theorem second_bye_counterexample:
  "map_option trace
     (Option.bind (client_ev_timeout False rtcp_sender_bye_flag 7 5 example_session_world)
        (client_ev_timeout False rtcp_sender_bye_flag 19 5)) =
   Some [Fnc_log ''[client] Soft stream timeout'', Rtcp_send_sr example_session BYE,
         Ev_timer_again 5,
         Fnc_log ''[client] Soft stream timeout'',
         Rtcp_send_sr (example_session\<lparr>isBye := 1\<rparr>) BYE,
         Fnc_log ''[client] Stream Timeout, client kicked off!'', Ev_async_send 5,
         Ev_timer_again 5] \<and>
   map_option trace
     (Option.bind (client_ev_timeout True rtcp_sender_bye_flag 7 5 example_session_world)
        (client_ev_timeout True rtcp_sender_bye_flag 19 5)) =
   Some [Fnc_log ''[client] Soft stream timeout'', Rtcp_send_sr example_session BYE,
         Rtcp_send_sr (example_session\<lparr>isBye := 1\<rparr>) SDES,
         Ev_timer_again 5,
         Fnc_log ''[client] Soft stream timeout'',
         Rtcp_send_sr (example_session\<lparr>isBye := 1\<rparr>) BYE,
         Fnc_log ''[client] Stream Timeout, client kicked off!'', Ev_async_send 5,
         Ev_timer_again 5]"
  by (simp add: client_ev_timeout_def check_if_any_rtp_session_timedout_def rtcp_send_sr_def
      ev_async_send_def ev_timer_again_def upd_client_def emit_def
      example_session_world_def example_session_def rtcp_sender_bye_flag_def
      LIVE_STREAM_BYE_TIMEOUT_def STREAM_TIMEOUT_def)




subsection \<open>The reaper\<close>

declare reap_children.simps [simp del]

lemma remove1_by_pid:
  "distinct (map pid l) \<Longrightarrow> cl \<in> set l \<Longrightarrow> remove1 cl l = filter (\<lambda>r. pid r \<noteq> pid cl) l"
proof (induction l)
  case Nil
  then show ?case by simp
next
  case (Cons a l)
  show ?case
  proof (cases "a = cl")
    case True
    from Cons.prems have "pid a \<notin> pid ` set l" by simp
    then have "\<forall>r\<in>set l. pid r \<noteq> pid a" by (metis imageI)
    then have "filter (\<lambda>r. pid r \<noteq> pid a) l = l" by (simp add: filter_id_conv)
    with True show ?thesis by simp
  next
    case False
    with Cons.prems have "cl \<in> set l" "pid a \<noteq> pid cl" by auto
    with Cons False show ?thesis by auto
  qed
qed

lemma find_filter_other:
  "q \<noteq> p \<Longrightarrow> find (\<lambda>r. pid r = q) (filter (\<lambda>r. pid r \<noteq> p) l) = find (\<lambda>r. pid r = q) l"
  by (induction l) auto

lemma find_pid_Some:
  "p \<in> pid ` set l \<Longrightarrow> \<exists>cl. find (\<lambda>r. pid r = p) l = Some cl \<and> cl \<in> set l \<and> pid cl = p"
  by (induction l) auto

lemma reap_children_step:
  assumes "zombies w = p # zs" and "0 < p" and "get_client_list_item p w = Some cl"
  shows "reap_children w =
     reap_children
       (w\<lparr>connection_count := connection_count w - 1,
          client_list := remove1 cl (client_list w),
          zombies := zs,
          trace := trace w @ [Reduce_client_list cl, Connection_count_dec, Free_child_port cl]\<rparr>)"
proof -
  have "reap_children w =
     reap_children
       (free_child_port cl
          (emit Connection_count_dec
             ((reduce_client_list cl (w\<lparr>zombies := zs\<rparr>))
                \<lparr>connection_count := connection_count (w\<lparr>zombies := zs\<rparr>) - 1\<rparr>)))"
    using assms
    by (subst reap_children.simps) (simp add: waitpid_def get_client_list_item_def)
  also have "free_child_port cl
          (emit Connection_count_dec
             ((reduce_client_list cl (w\<lparr>zombies := zs\<rparr>))
                \<lparr>connection_count := connection_count (w\<lparr>zombies := zs\<rparr>) - 1\<rparr>)) =
       w\<lparr>connection_count := connection_count w - 1,
          client_list := remove1 cl (client_list w),
          zombies := zs,
          trace := trace w @ [Reduce_client_list cl, Connection_count_dec, Free_child_port cl]\<rparr>"
    by (cases w) (simp add: reduce_client_list_def free_child_port_def emit_def)
  finally show ?thesis .
qed

lemma reap_children_stop:
  assumes "zombies w = []"
  shows "reap_children w = w"
  using assms by (subst reap_children.simps) (simp add: waitpid_def)

lemma reap_children_run:
  assumes "zombies w = zs" and "\<forall>p\<in>set zs. 0 < p" and "distinct zs"
    and "distinct (map pid (client_list w))" and "set zs \<subseteq> pid ` set (client_list w)"
  shows "reap_children w =
     w\<lparr>connection_count := connection_count w - int (length zs),
       client_list := filter (\<lambda>r. pid r \<notin> set zs) (client_list w),
       zombies := [],
       trace := trace w @
         concat (map (\<lambda>p. case find (\<lambda>r. pid r = p) (client_list w) of
                            None \<Rightarrow> []
                          | Some r \<Rightarrow> [Reduce_client_list r, Connection_count_dec,
                                        Free_child_port r]) zs)\<rparr>"
  using assms
proof (induction zs arbitrary: w)
  case Nil
  then show ?case by (cases w) (simp add: reap_children_stop)
next
  case (Cons p zs)
  let ?l = "client_list w"
  from Cons.prems have "p \<in> pid ` set ?l" by auto
  then obtain cl where cl: "find (\<lambda>r. pid r = p) ?l = Some cl" "cl \<in> set ?l" "pid cl = p"
    using find_pid_Some by blast
  let ?w = "w\<lparr>connection_count := connection_count w - 1,
          client_list := remove1 cl ?l,
          zombies := zs,
          trace := trace w @ [Reduce_client_list cl, Connection_count_dec, Free_child_port cl]\<rparr>"
  have rm: "remove1 cl ?l = filter (\<lambda>r. pid r \<noteq> p) ?l"
    using remove1_by_pid [of ?l cl] Cons.prems cl by simp
  have step: "reap_children w = reap_children ?w"
    using Cons.prems cl by (intro reap_children_step) (simp_all add: get_client_list_item_def)
  have p_notin: "p \<notin> set zs" using Cons.prems by simp
  have sub: "set zs \<subseteq> pid ` set (client_list ?w)"
  proof
    fix q assume q: "q \<in> set zs"
    with p_notin have "q \<noteq> p" by auto
    moreover from q Cons.prems have "q \<in> pid ` set ?l" by auto
    ultimately show "q \<in> pid ` set (client_list ?w)" by (auto simp: rm)
  qed
  have IH: "reap_children ?w =
     ?w\<lparr>connection_count := connection_count ?w - int (length zs),
       client_list := filter (\<lambda>r. pid r \<notin> set zs) (client_list ?w),
       zombies := [],
       trace := trace ?w @
         concat (map (\<lambda>p. case find (\<lambda>r. pid r = p) (client_list ?w) of
                            None \<Rightarrow> []
                          | Some r \<Rightarrow> [Reduce_client_list r, Connection_count_dec,
                                        Free_child_port r]) zs)\<rparr>"
  proof (rule Cons.IH)
    show "zombies ?w = zs" by simp
    show "\<forall>p\<in>set zs. 0 < p" using Cons.prems by simp
    show "distinct zs" using Cons.prems by simp
    show "distinct (map pid (client_list ?w))" using Cons.prems by (simp add: rm distinct_map_filter)
    show "set zs \<subseteq> pid ` set (client_list ?w)" by (rule sub)
  qed
  have same: "map (\<lambda>q. case find (\<lambda>r. pid r = q) (client_list ?w) of
                            None \<Rightarrow> []
                          | Some r \<Rightarrow> [Reduce_client_list r, Connection_count_dec,
                                        Free_child_port r]) zs =
        map (\<lambda>q. case find (\<lambda>r. pid r = q) ?l of
                            None \<Rightarrow> []
                          | Some r \<Rightarrow> [Reduce_client_list r, Connection_count_dec,
                                        Free_child_port r]) zs"
  proof (rule map_cong [OF refl])
    fix q assume "q \<in> set zs"
    with p_notin have "q \<noteq> p" by auto
    then show "(case find (\<lambda>r. pid r = q) (client_list ?w) of
                            None \<Rightarrow> []
                          | Some r \<Rightarrow> [Reduce_client_list r, Connection_count_dec,
                                        Free_child_port r]) =
        (case find (\<lambda>r. pid r = q) ?l of
                            None \<Rightarrow> []
                          | Some r \<Rightarrow> [Reduce_client_list r, Connection_count_dec,
                                        Free_child_port r])"
      by (simp add: rm find_filter_other)
  qed
  have flt: "filter (\<lambda>r. pid r \<notin> set zs) (client_list ?w) =
             filter (\<lambda>r. pid r \<notin> set (p # zs)) ?l"
    by (simp add: rm conj_commute)
  have "reap_children w =
     ?w\<lparr>connection_count := connection_count ?w - int (length zs),
       client_list := filter (\<lambda>r. pid r \<notin> set (p # zs)) ?l,
       zombies := [],
       trace := trace ?w @
         concat (map (\<lambda>p. case find (\<lambda>r. pid r = p) ?l of
                            None \<Rightarrow> []
                          | Some r \<Rightarrow> [Reduce_client_list r, Connection_count_dec,
                                        Free_child_port r]) zs)\<rparr>"
    unfolding step IH same flt ..
  also have "\<dots> =
     w\<lparr>connection_count := connection_count w - int (length (p # zs)),
       client_list := filter (\<lambda>r. pid r \<notin> set (p # zs)) ?l,
       zombies := [],
       trace := trace w @
         concat (map (\<lambda>p. case find (\<lambda>r. pid r = p) ?l of
                            None \<Rightarrow> []
                          | Some r \<Rightarrow> [Reduce_client_list r, Connection_count_dec,
                                        Free_child_port r]) (p # zs))\<rparr>"
    using cl by (cases w) simp
  finally show ?case .
qed


lemma released_ports_reaped:
  "set zs \<subseteq> pid ` set l \<Longrightarrow>
   map Some (released_ports
     (concat (map (\<lambda>p. case find (\<lambda>r. pid r = p) l of
                            None \<Rightarrow> []
                          | Some r \<Rightarrow> [Reduce_client_list r, Connection_count_dec,
                                        Free_child_port r]) zs) @ [Loop_timer_again])) =
   map (\<lambda>p. find (\<lambda>r. pid r = p) l) zs"
proof (induction zs)
  case Nil
  then show ?case by simp
next
  case (Cons p zs)
  then obtain cl where "find (\<lambda>r. pid r = p) l = Some cl"
    using find_pid_Some [of p l] by auto
  with Cons show ?case by simp
qed

text \<open>
  Claim C8. When the K children \<open>zs\<close> have terminated and each has its tracking record,
  one call of \<open>timer_watcher_cb\<close> removes exactly the K records of those children,
  releases their K port pairs, lowers the counter by K and leaves no terminated child
  unreaped.
\<close>

theorem reaper_completeness:
  assumes "zombies w = zs" and "\<forall>p\<in>set zs. 0 < p" and "distinct zs"
    and "distinct (map pid (client_list w))" and "set zs \<subseteq> pid ` set (client_list w)"
  shows "client_list (timer_watcher_cb w) = filter (\<lambda>r. pid r \<notin> set zs) (client_list w)
       \<and> map Some (released_ports (new_events w (timer_watcher_cb w))) =
           map (\<lambda>p. get_client_list_item p w) zs
       \<and> connection_count (timer_watcher_cb w) = connection_count w - int (length zs)
       \<and> zombies (timer_watcher_cb w) = []"
  using released_ports_reaped [OF assms(5)]
  by (simp add: timer_watcher_cb_def reap_children_run [OF assms] emit_def new_events_def
      get_client_list_item_def)

theorem reaper_completeness_witness:
  "zombies example_parent = [103, 101] \<and>
   client_list (timer_watcher_cb example_parent) = [\<lparr>pid = 102, port_pair = 32\<rparr>] \<and>
   map Some (released_ports (new_events example_parent (timer_watcher_cb example_parent))) =
     [Some \<lparr>pid = 103, port_pair = 34\<rparr>, Some \<lparr>pid = 101, port_pair = 30\<rparr>] \<and>
   connection_count (timer_watcher_cb example_parent) = 1 \<and>
   zombies (timer_watcher_cb example_parent) = []"
  using reaper_completeness [of example_parent "[103, 101]"]
  by (simp add: example_parent_def get_client_list_item_def)

end
